theory Spec2Isabelle
  imports Complex_Main
begin

section \<open>Values and types of the SDK's data contracts\<close>

text \<open>
  \<^verbatim>\<open>src/types/types.ts\<close> holds no functions: it declares the interfaces, unions and
  enums of the requests and responses of the SDK. What such a declaration says is which
  run-time values it admits, so the embedding has three parts: the values a JavaScript
  program exchanges with the service (\<open>jv\<close>), the type expressions the file is written
  in (\<open>ty\<close>), and TypeScript's structural reading of them (\<open>has_type\<close>). Every
  declaration of the source is then one constant of type \<open>ty\<close>, member by member in the
  order of the source.

  The declarations are read under \<^verbatim>\<open>strictNullChecks\<close>: \<^verbatim>\<open>null\<close> and \<^verbatim>\<open>undefined\<close> belong
  to a type only where it names them (the file writes \<^verbatim>\<open>string | null\<close> throughout, which
  says nothing otherwise). Numbers are never computed with here; they are carried as
  rationals.
\<close>

datatype jv =
    JUndefined
  | JNull
  | JBool bool
  | JNum rat
  | JStr string
  | JArr "jv list"
  | JObj "(string \<times> jv) list"

text \<open>A member of an interface is required (\<^verbatim>\<open>k: T\<close>) or optional (\<^verbatim>\<open>k?: T\<close>).\<close>

datatype presence = Required | Optional

text \<open>
  \<open>TLitBool\<close> is a literal type \<^verbatim>\<open>true\<close> or \<^verbatim>\<open>false\<close>; \<open>TEnum\<close> is a string enum, given
  by the values of its members; \<open>TObject idx ms\<close> is an object type with the members
  \<open>ms\<close> and, when \<open>idx\<close> is \<open>Some t\<close>, the index signature \<^verbatim>\<open>[key: string]: t\<close>.
\<close>

datatype ty =
    TAny
  | TNull
  | TString
  | TNumber
  | TBoolean
  | TLitBool bool
  | TEnum "string list"
  | TArray ty
  | TUnion "ty list"
  | TObject "ty option" "(string \<times> presence \<times> ty) list"

text \<open>
  Structural typing. An object has an object type when every declared member is
  satisfied; properties the type does not declare are allowed. A required member must be
  present with a value of its type; an optional one may be absent or \<^verbatim>\<open>undefined\<close>. A
  value has a union type when it has the type of one of the members of the union. The
  properties of an object are an association list read with \<open>map_of\<close>.
\<close>

fun has_type :: "jv \<Rightarrow> ty \<Rightarrow> bool" where
  "has_type v TAny = True"
| "has_type v TNull = (v = JNull)"
| "has_type v TString = (case v of JStr s \<Rightarrow> True | _ \<Rightarrow> False)"
| "has_type v TNumber = (case v of JNum n \<Rightarrow> True | _ \<Rightarrow> False)"
| "has_type v TBoolean = (case v of JBool b \<Rightarrow> True | _ \<Rightarrow> False)"
| "has_type v (TLitBool b) = (v = JBool b)"
| "has_type v (TEnum ms) = (case v of JStr s \<Rightarrow> s \<in> set ms | _ \<Rightarrow> False)"
| "has_type v (TArray t) =
     (case v of JArr xs \<Rightarrow> list_all (\<lambda>x. has_type x t) xs | _ \<Rightarrow> False)"
| "has_type v (TUnion ts) = list_ex (\<lambda>t. has_type v t) ts"
| "has_type v (TObject idx ms) =
     (case v of
        JObj ps \<Rightarrow>
          (case idx of
             None \<Rightarrow> True
           | Some t \<Rightarrow> list_all (\<lambda>kx. has_type (snd kx) t) ps) \<and>
          list_all (\<lambda>m. case map_of ps (fst m) of
                       None \<Rightarrow> fst (snd m) = Optional
                     | Some x \<Rightarrow> (fst (snd m) = Optional \<and> x = JUndefined)
                                 \<or> has_type x (snd (snd m))) ms
      | _ \<Rightarrow> False)"

text \<open>Reading a property, as \<^verbatim>\<open>v.k\<close> does: a missing property reads as \<^verbatim>\<open>undefined\<close>.\<close>

definition field :: "jv \<Rightarrow> string \<Rightarrow> jv" where
  "field v k = (case v of
                  JObj ps \<Rightarrow> (case map_of ps k of None \<Rightarrow> JUndefined | Some x \<Rightarrow> x)
                | _ \<Rightarrow> JUndefined)"

definition is_object :: "jv \<Rightarrow> bool" where
  "is_object v = (case v of JObj ps \<Rightarrow> True | _ \<Rightarrow> False)"

definition is_string :: "jv \<Rightarrow> bool" where
  "is_string v = (case v of JStr s \<Rightarrow> True | _ \<Rightarrow> False)"

definition is_boolean :: "jv \<Rightarrow> bool" where
  "is_boolean v = (case v of JBool b \<Rightarrow> True | _ \<Rightarrow> False)"

text \<open>One declared member against the properties \<open>ps\<close> of an object.\<close>

definition member_ok :: "(string \<times> jv) list \<Rightarrow> string \<times> presence \<times> ty \<Rightarrow> bool" where
  "member_ok ps m = (case map_of ps (fst m) of
                       None \<Rightarrow> fst (snd m) = Optional
                     | Some x \<Rightarrow> (fst (snd m) = Optional \<and> x = JUndefined)
                                 \<or> has_type x (snd (snd m)))"

text \<open>The members and the index signature an object type declares.\<close>

fun members :: "ty \<Rightarrow> (string \<times> presence \<times> ty) list" where
  "members (TObject idx ms) = ms"
| "members t = []"

fun index_signature :: "ty \<Rightarrow> ty option" where
  "index_signature (TObject idx ms) = idx"
| "index_signature t = None"

text \<open>
  \<^verbatim>\<open>interface D extends B { own }\<close>: the members of \<open>D\<close> are its own, followed by those of
  \<open>B\<close> it does not declare again; the index signature of \<open>B\<close> is inherited. TypeScript
  accepts only object types after \<^verbatim>\<open>extends\<close>; the second equation makes the function
  total and is never used.
\<close>

fun extends :: "ty \<Rightarrow> (string \<times> presence \<times> ty) list \<Rightarrow> ty" where
  "extends (TObject idx base) own =
     TObject idx (own @ filter (\<lambda>m. fst m \<notin> set (map fst own)) base)"
| "extends t own = TObject None own"

text \<open>\<^verbatim>\<open>Record<string, T>\<close>: no declared member, every property of type \<open>T\<close>.\<close>

definition Record_string :: "ty \<Rightarrow> ty" where
  "Record_string t = TObject (Some t) []"


section \<open>The declarations of \<^verbatim>\<open>types.ts\<close>\<close>

subsection \<open>Token balances\<close>

definition TokenBalanceSuccess :: ty where
  "TokenBalanceSuccess = TObject None
     [(''contractAddress'', Required, TString),
      (''tokenBalance'', Required, TString),
      (''error'', Required, TNull)]"

definition TokenBalanceFailure :: ty where
  "TokenBalanceFailure = TObject None
     [(''contractAddress'', Required, TString),
      (''tokenBalance'', Required, TNull),
      (''error'', Required, TString)]"

definition TokenBalance :: ty where
  "TokenBalance = TUnion [TokenBalanceSuccess, TokenBalanceFailure]"

subsection \<open>Asset transfers\<close>

definition AssetTransfersCategory :: ty where
  "AssetTransfersCategory =
     TEnum [''external'', ''internal'', ''erc20'', ''erc721'', ''erc1155'', ''specialnft'']"

definition AssetTransfersOrder :: ty where
  "AssetTransfersOrder = TEnum [''asc'', ''desc'']"

definition AssetTransfersParams :: ty where
  "AssetTransfersParams = TObject None
     [(''fromBlock'', Optional, TString),
      (''toBlock'', Optional, TString),
      (''order'', Optional, AssetTransfersOrder),
      (''fromAddress'', Optional, TString),
      (''toAddress'', Optional, TString),
      (''contractAddresses'', Optional, TArray TString),
      (''excludeZeroValue'', Optional, TBoolean),
      (''category'', Required, TArray AssetTransfersCategory),
      (''maxCount'', Optional, TNumber),
      (''pageKey'', Optional, TString),
      (''withMetadata'', Optional, TBoolean)]"

definition AssetTransfersWithMetadataParams :: ty where
  "AssetTransfersWithMetadataParams =
     extends AssetTransfersParams [(''withMetadata'', Required, TLitBool True)]"

definition ERC1155Metadata :: ty where
  "ERC1155Metadata = TObject None
     [(''tokenId'', Required, TString),
      (''value'', Required, TString)]"

definition RawContract :: ty where
  "RawContract = TObject None
     [(''value'', Required, TUnion [TString, TNull]),
      (''address'', Required, TUnion [TString, TNull]),
      (''decimal'', Required, TUnion [TString, TNull])]"

definition AssetTransfersResult :: ty where
  "AssetTransfersResult = TObject None
     [(''category'', Required, AssetTransfersCategory),
      (''blockNum'', Required, TString),
      (''from'', Required, TString),
      (''to'', Required, TUnion [TString, TNull]),
      (''value'', Required, TUnion [TNumber, TNull]),
      (''erc721TokenId'', Required, TUnion [TString, TNull]),
      (''erc1155Metadata'', Required, TUnion [TArray ERC1155Metadata, TNull]),
      (''tokenId'', Required, TUnion [TString, TNull]),
      (''asset'', Required, TUnion [TString, TNull]),
      (''hash'', Required, TString),
      (''rawContract'', Required, RawContract)]"

definition AssetTransfersMetadata :: ty where
  "AssetTransfersMetadata = TObject None [(''blockTimestamp'', Required, TString)]"

definition AssetTransfersWithMetadataResult :: ty where
  "AssetTransfersWithMetadataResult =
     extends AssetTransfersResult [(''metadata'', Required, AssetTransfersMetadata)]"

subsection \<open>NFT metadata and the NFT queries\<close>

definition NftMetadata :: ty where
  "NftMetadata = extends (Record_string TAny)
     [(''name'', Optional, TString),
      (''description'', Optional, TString),
      (''image'', Optional, TString),
      (''external_url'', Optional, TString),
      (''background_color'', Optional, TString),
      (''attributes'', Optional, TArray (Record_string TAny))]"

definition NftExcludeFilters :: ty where
  "NftExcludeFilters = TEnum [''SPAM'']"

definition GetNftsForOwnerOptions :: ty where
  "GetNftsForOwnerOptions = TObject None
     [(''pageKey'', Optional, TString),
      (''contractAddresses'', Optional, TArray TString),
      (''excludeFilters'', Optional, TArray NftExcludeFilters),
      (''pageSize'', Optional, TNumber),
      (''omitMetadata'', Optional, TBoolean),
      (''tokenUriTimeoutInMs'', Optional, TNumber)]"

definition GetBaseNftsForOwnerOptions :: ty where
  "GetBaseNftsForOwnerOptions = TObject None
     [(''pageKey'', Optional, TString),
      (''contractAddresses'', Optional, TArray TString),
      (''excludeFilters'', Optional, TArray NftExcludeFilters),
      (''pageSize'', Optional, TNumber),
      (''omitMetadata'', Required, TLitBool True),
      (''tokenUriTimeoutInMs'', Optional, TNumber)]"

definition GetNftsForContractOptions :: ty where
  "GetNftsForContractOptions = TObject None
     [(''pageKey'', Optional, TString),
      (''omitMetadata'', Optional, TBoolean),
      (''pageSize'', Optional, TNumber),
      (''tokenUriTimeoutInMs'', Optional, TNumber)]"

definition GetBaseNftsForContractOptions :: ty where
  "GetBaseNftsForContractOptions = TObject None
     [(''pageKey'', Optional, TString),
      (''omitMetadata'', Required, TLitBool False),
      (''pageSize'', Optional, TNumber)]"

subsection \<open>Contract refresh\<close>

definition RefreshState :: ty where
  "RefreshState =
     TEnum [''does_not_exist'', ''already_queued'', ''in_progress'', ''finished'',
            ''queued'', ''queue_failed'']"

definition RefreshContractResult :: ty where
  "RefreshContractResult = TObject None
     [(''contractAddress'', Required, TString),
      (''refreshState'', Required, RefreshState),
      (''progress'', Required, TUnion [TString, TNull])]"

subsection \<open>Transaction receipts and private transactions\<close>

definition TransactionReceiptsBlockNumber :: ty where
  "TransactionReceiptsBlockNumber = TObject None [(''blockNumber'', Required, TString)]"

definition TransactionReceiptsBlockHash :: ty where
  "TransactionReceiptsBlockHash = TObject None [(''blockHash'', Required, TString)]"

definition TransactionReceiptsParams :: ty where
  "TransactionReceiptsParams =
     TUnion [TransactionReceiptsBlockNumber, TransactionReceiptsBlockHash]"

text \<open>
  \<^verbatim>\<open>TransactionReceipt\<close> is imported from \<^verbatim>\<open>@ethersproject/abstract-provider\<close>; the
  response type takes it as the parameter \<open>receipt\<close>.
\<close>

definition TransactionReceiptsResponse :: "ty \<Rightarrow> ty" where
  "TransactionReceiptsResponse receipt = TObject None
     [(''receipts'', Required, TUnion [TArray receipt, TNull])]"

definition SendPrivateTransactionOptions :: ty where
  "SendPrivateTransactionOptions = TObject None [(''fast'', Required, TBoolean)]"


section \<open>Reading a type off its members\<close>

lemma has_type_TObject:
  "has_type v (TObject idx ms) =
     (\<exists>ps. v = JObj ps \<and>
        (case idx of None \<Rightarrow> True | Some t \<Rightarrow> list_all (\<lambda>kx. has_type (snd kx) t) ps) \<and>
        list_all (member_ok ps) ms)"
  by (cases v) (simp_all add: member_ok_def [abs_def])

declare has_type.simps(10) [simp del]

lemma member_ok_Required:
  "member_ok ps (k, Required, t) = (\<exists>x. map_of ps k = Some x \<and> has_type x t)"
  by (simp add: member_ok_def split: option.split)

lemma member_ok_Optional:
  "member_ok ps (k, Optional, t) =
     (case map_of ps k of None \<Rightarrow> True | Some x \<Rightarrow> x = JUndefined \<or> has_type x t)"
  by (simp add: member_ok_def split: option.split)

lemma field_JObj:
  "field (JObj ps) k = (case map_of ps k of None \<Rightarrow> JUndefined | Some x \<Rightarrow> x)"
  by (simp add: field_def)

lemma required_string:
  "member_ok ps (k, Required, TString) = is_string (field (JObj ps) k)"
  by (auto simp: member_ok_Required field_JObj is_string_def split: option.split jv.split)

lemma required_null:
  "member_ok ps (k, Required, TNull) = (field (JObj ps) k = JNull)"
  by (auto simp: member_ok_Required field_JObj split: option.split)

lemma required_boolean:
  "member_ok ps (k, Required, TBoolean) = is_boolean (field (JObj ps) k)"
  by (auto simp: member_ok_Required field_JObj is_boolean_def split: option.split jv.split)

lemma required_literal:
  "member_ok ps (k, Required, TLitBool b) = (field (JObj ps) k = JBool b)"
  by (auto simp: member_ok_Required field_JObj split: option.split)

lemma required_string_or_null:
  "member_ok ps (k, Required, TUnion [TString, TNull]) =
     (is_string (field (JObj ps) k) \<or> field (JObj ps) k = JNull)"
  by (auto simp: member_ok_Required field_JObj is_string_def split: option.split jv.split)

lemma required_enum:
  "member_ok ps (k, Required, TEnum ms) = (field (JObj ps) k \<in> JStr ` set ms)"
  by (auto simp: member_ok_Required field_JObj split: option.split jv.split)

lemma required_field:
  assumes "\<not> has_type JUndefined t"
  shows "member_ok ps (k, Required, t) = has_type (field (JObj ps) k) t"
  using assms by (simp add: member_ok_Required field_JObj split: option.split)

lemma is_object_JObj: "is_object v = (\<exists>ps. v = JObj ps)"
  by (cases v) (simp_all add: is_object_def)

lemma is_string_JStr: "is_string v = (\<exists>s. v = JStr s)"
  by (cases v) (simp_all add: is_string_def)

lemma is_boolean_JBool: "is_boolean v = (\<exists>b. v = JBool b)"
  by (cases v) (simp_all add: is_boolean_def)

lemma has_type_array_or_null:
  "has_type x (TUnion [TArray t, TNull]) =
     (x = JNull \<or> (\<exists>xs. x = JArr xs \<and> list_all (\<lambda>y. has_type y t) xs))"
  by (cases x) auto

lemma has_type_string_or_null:
  "has_type x (TUnion [TString, TNull]) = (x = JNull \<or> (\<exists>s. x = JStr s))"
  by (cases x) auto

lemma member_ok_other:
  assumes "k \<noteq> fst m"
  shows "member_ok ((k, x) # ps) m = member_ok ps m"
  using assms by (simp add: member_ok_def)

lemma member_ok_set:
  assumes "has_type x t"
  shows "member_ok ((k, x) # ps) (k, p, t)"
  using assms by (simp add: member_ok_def)

lemma optional_boolean_of_field:
  assumes "field (JObj ps) k = JBool b"
  shows "member_ok ps (k, Optional, TBoolean)"
  using assms by (simp add: member_ok_Optional field_JObj split: option.splits)

lemma member_ok_absent:
  assumes "k \<notin> fst ` set ps"
  shows "member_ok ps (k, Optional, t)"
  using assms by (simp add: member_ok_def map_of_eq_None_iff [THEN iffD2])


section \<open>Token balances\<close>

lemma TokenBalance_cases:
  "has_type v TokenBalance =
     (\<exists>ps. v = JObj ps \<and> is_string (field v ''contractAddress'') \<and>
        (is_string (field v ''tokenBalance'') \<and> field v ''error'' = JNull
         \<or> field v ''tokenBalance'' = JNull \<and> is_string (field v ''error'')))"
  unfolding TokenBalance_def TokenBalanceSuccess_def TokenBalanceFailure_def
  by (auto simp: has_type_TObject required_string required_null)

text \<open>
  C1. In every value of type \<open>TokenBalance\<close> each of \<open>tokenBalance\<close> and \<open>error\<close> is
  \<^verbatim>\<open>null\<close> or a string, and exactly one of them is not \<^verbatim>\<open>null\<close>: \<open>tokenBalance\<close> is
  \<^verbatim>\<open>null\<close> if and only if \<open>error\<close> is not.
\<close>

theorem TokenBalance_exactly_one:
  assumes "has_type v TokenBalance"
  shows "(field v ''tokenBalance'' = JNull) = (field v ''error'' \<noteq> JNull)
       \<and> (field v ''tokenBalance'' = JNull \<or> is_string (field v ''tokenBalance''))
       \<and> (field v ''error'' = JNull \<or> is_string (field v ''error''))"
  using assms by (auto simp: TokenBalance_cases is_string_def)

theorem TokenBalance_exactly_one_witness:
  "has_type (JObj [(''contractAddress'', JStr ''0xdac17f958d2ee523a2206206994597c13d831ec7''),
                   (''tokenBalance'', JNull),
                   (''error'', JStr ''execution reverted'')]) TokenBalance
   \<and> field (JObj [(''contractAddress'', JStr ''0xdac17f958d2ee523a2206206994597c13d831ec7''),
                   (''tokenBalance'', JNull),
                   (''error'', JStr ''execution reverted'')]) ''tokenBalance'' = JNull
   \<and> field (JObj [(''contractAddress'', JStr ''0xdac17f958d2ee523a2206206994597c13d831ec7''),
                   (''tokenBalance'', JNull),
                   (''error'', JStr ''execution reverted'')]) ''error'' \<noteq> JNull"
proof -
  let ?v = "JObj [(''contractAddress'', JStr ''0xdac17f958d2ee523a2206206994597c13d831ec7''),
                  (''tokenBalance'', JNull),
                  (''error'', JStr ''execution reverted'')]"
  have h: "has_type ?v TokenBalance"
    by (simp add: TokenBalance_cases field_def is_string_def)
  from TokenBalance_exactly_one [OF h] h show ?thesis
    by (simp add: field_def)
qed

text \<open>
  C8. Every value of type \<open>TokenBalance\<close>, of the success or of the failure variant,
  carries a string (so not \<^verbatim>\<open>null\<close>) in \<open>contractAddress\<close>.
\<close>

theorem TokenBalance_contractAddress:
  assumes "has_type v TokenBalance"
  shows "\<exists>s. field v ''contractAddress'' = JStr s"
  using assms by (auto simp: TokenBalance_cases is_string_def split: jv.splits)

theorem TokenBalance_contractAddress_witness:
  "has_type (JObj [(''contractAddress'', JStr ''0x6b17''),
                   (''tokenBalance'', JNull),
                   (''error'', JStr ''timeout'')]) TokenBalance
   \<and> has_type (JObj [(''contractAddress'', JStr ''0x6b17''),
                   (''tokenBalance'', JStr ''0x0de0b6b3a7640000''),
                   (''error'', JNull)]) TokenBalance
   \<and> (\<exists>s. field (JObj [(''contractAddress'', JStr ''0x6b17''),
                   (''tokenBalance'', JNull),
                   (''error'', JStr ''timeout'')]) ''contractAddress'' = JStr s)"
proof -
  let ?f = "JObj [(''contractAddress'', JStr ''0x6b17''),
                  (''tokenBalance'', JNull),
                  (''error'', JStr ''timeout'')]"
  let ?s = "JObj [(''contractAddress'', JStr ''0x6b17''),
                  (''tokenBalance'', JStr ''0x0de0b6b3a7640000''),
                  (''error'', JNull)]"
  have f: "has_type ?f TokenBalance"
    by (simp add: TokenBalance_cases field_def is_string_def)
  have s: "has_type ?s TokenBalance"
    by (simp add: TokenBalance_cases field_def is_string_def)
  from TokenBalance_contractAddress [OF f] f s show ?thesis
    by simp
qed


section \<open>Transaction receipts\<close>

text \<open>
  The union \<open>TransactionReceiptsParams\<close> is exactly the objects that carry a string in
  \<open>blockNumber\<close> or a string in \<open>blockHash\<close>.
\<close>

lemma TransactionReceiptsParams_cases:
  "has_type v TransactionReceiptsParams =
     (is_object v \<and>
      (is_string (field v ''blockNumber'') \<or> is_string (field v ''blockHash'')))"
  unfolding TransactionReceiptsParams_def TransactionReceiptsBlockNumber_def
    TransactionReceiptsBlockHash_def
  by (auto simp: has_type_TObject required_string is_object_JObj)

text \<open>
  C3, as the claim states it, fails: an object that carries both \<open>blockNumber\<close> and
  \<open>blockHash\<close> has the type of the first member of the union (and of the second), so it
  is a value of \<open>TransactionReceiptsParams\<close>.
\<close>

theorem TransactionReceiptsParams_both_counterexample:
  "has_type (JObj [(''blockNumber'', JStr ''0x10d4f''), (''blockHash'', JStr ''0x5f3a'')])
     TransactionReceiptsParams
   \<and> field (JObj [(''blockNumber'', JStr ''0x10d4f''), (''blockHash'', JStr ''0x5f3a'')])
       ''blockNumber'' = JStr ''0x10d4f''
   \<and> field (JObj [(''blockNumber'', JStr ''0x10d4f''), (''blockHash'', JStr ''0x5f3a'')])
       ''blockHash'' = JStr ''0x5f3a''"
  by (simp add: TransactionReceiptsParams_cases field_def is_object_def is_string_def)

text \<open>
  C3, amended. Every value of type \<open>TransactionReceiptsParams\<close> supplies at least one of
  \<open>blockNumber\<close> and \<open>blockHash\<close>, as a string: no value carries neither. The type admits
  a value that carries both.
\<close>

theorem TransactionReceiptsParams_at_least_one:
  assumes "has_type v TransactionReceiptsParams"
  shows "(\<exists>s. field v ''blockNumber'' = JStr s) \<or> (\<exists>s. field v ''blockHash'' = JStr s)"
  using assms by (simp add: TransactionReceiptsParams_cases is_string_JStr)

theorem TransactionReceiptsParams_at_least_one_witness:
  "has_type (JObj [(''blockHash'', JStr ''0x5f3a'')]) TransactionReceiptsParams
   \<and> field (JObj [(''blockHash'', JStr ''0x5f3a'')]) ''blockNumber'' = JUndefined
   \<and> field (JObj [(''blockHash'', JStr ''0x5f3a'')]) ''blockHash'' = JStr ''0x5f3a''
   \<and> \<not> has_type (JObj []) TransactionReceiptsParams"
proof -
  let ?v = "JObj [(''blockHash'', JStr ''0x5f3a'')]"
  have h: "has_type ?v TransactionReceiptsParams"
    by (simp add: TransactionReceiptsParams_cases field_def is_object_def is_string_def)
  have n: "\<not> has_type (JObj []) TransactionReceiptsParams"
    by (simp add: TransactionReceiptsParams_cases field_def is_string_def)
  from TransactionReceiptsParams_at_least_one [OF h] h n show ?thesis
    by (simp add: field_def)
qed

text \<open>
  C7. The values of \<open>TransactionReceiptsResponse\<close> are the objects whose \<open>receipts\<close> is
  \<^verbatim>\<open>null\<close> or a list of receipts. Both \<^verbatim>\<open>{receipts: null}\<close> and \<^verbatim>\<open>{receipts: []}\<close> are values
  of the type, and their \<open>receipts\<close> differ: the type keeps "block not found" apart from
  "block with no transactions".
\<close>

theorem TransactionReceiptsResponse_null_or_list:
  "has_type v (TransactionReceiptsResponse receipt) =
     (is_object v \<and>
      (field v ''receipts'' = JNull
       \<or> (\<exists>rs. field v ''receipts'' = JArr rs \<and> list_all (\<lambda>r. has_type r receipt) rs)))
   \<and> has_type (JObj [(''receipts'', JNull)]) (TransactionReceiptsResponse receipt)
   \<and> has_type (JObj [(''receipts'', JArr [])]) (TransactionReceiptsResponse receipt)
   \<and> field (JObj [(''receipts'', JNull)]) ''receipts''
       \<noteq> field (JObj [(''receipts'', JArr [])]) ''receipts''"
proof -
  have u: "\<not> has_type JUndefined (TUnion [TArray receipt, TNull])"
    by simp
  have "has_type v (TransactionReceiptsResponse receipt) =
     (is_object v \<and>
      (field v ''receipts'' = JNull
       \<or> (\<exists>rs. field v ''receipts'' = JArr rs \<and> list_all (\<lambda>r. has_type r receipt) rs)))"
    unfolding TransactionReceiptsResponse_def
    by (auto simp: has_type_TObject required_field [OF u] is_object_JObj
          has_type_array_or_null simp del: has_type.simps)
  moreover have "has_type (JObj [(''receipts'', JNull)]) (TransactionReceiptsResponse receipt)"
    unfolding TransactionReceiptsResponse_def
    by (simp add: has_type_TObject required_field [OF u] field_def)
  moreover have "has_type (JObj [(''receipts'', JArr [])]) (TransactionReceiptsResponse receipt)"
    unfolding TransactionReceiptsResponse_def
    by (simp add: has_type_TObject required_field [OF u] field_def)
  moreover have "field (JObj [(''receipts'', JNull)]) ''receipts''
       \<noteq> field (JObj [(''receipts'', JArr [])]) ''receipts''"
    by (simp add: field_def)
  ultimately show ?thesis by blast
qed

theorem TransactionReceiptsResponse_null_or_list_witness:
  "has_type (JObj [(''receipts'', JNull)]) (TransactionReceiptsResponse TAny)
   \<and> has_type (JObj [(''receipts'', JArr [])]) (TransactionReceiptsResponse TAny)
   \<and> \<not> has_type (JObj [(''receipts'', JUndefined)]) (TransactionReceiptsResponse TAny)
   \<and> \<not> has_type (JObj []) (TransactionReceiptsResponse TAny)"
  using TransactionReceiptsResponse_null_or_list [of "JObj [(''receipts'', JUndefined)]" TAny]
    TransactionReceiptsResponse_null_or_list [of "JObj []" TAny]
  by (simp add: field_def is_object_def)


section \<open>Private transactions\<close>

text \<open>
  C9. \<open>SendPrivateTransactionOptions\<close> declares \<open>fast\<close> as a required boolean: every
  value of the type carries a boolean in \<open>fast\<close>, and an object without the property (the
  empty object, or any object whose properties do not include \<open>fast\<close>) is not a value of
  the type.
\<close>

theorem SendPrivateTransactionOptions_fast_required:
  "map_of (members SendPrivateTransactionOptions) ''fast'' = Some (Required, TBoolean)
   \<and> (has_type v SendPrivateTransactionOptions \<longrightarrow> (\<exists>b. field v ''fast'' = JBool b))
   \<and> (map_of ps ''fast'' = None \<longrightarrow> \<not> has_type (JObj ps) SendPrivateTransactionOptions)"
  unfolding SendPrivateTransactionOptions_def
  by (auto simp: has_type_TObject required_boolean is_boolean_JBool field_JObj)

theorem SendPrivateTransactionOptions_fast_required_witness:
  "has_type (JObj [(''fast'', JBool False)]) SendPrivateTransactionOptions
   \<and> (\<exists>b. field (JObj [(''fast'', JBool False)]) ''fast'' = JBool b)
   \<and> map_of [(''maxBlockNumber'', JStr ''0x10d4f'')] ''fast'' = None
   \<and> \<not> has_type (JObj [(''maxBlockNumber'', JStr ''0x10d4f'')]) SendPrivateTransactionOptions"
proof -
  have h: "has_type (JObj [(''fast'', JBool False)]) SendPrivateTransactionOptions"
    unfolding SendPrivateTransactionOptions_def
    by (simp add: has_type_TObject required_boolean field_def is_boolean_def)
  have n: "map_of [(''maxBlockNumber'', JStr ''0x10d4f'')] ''fast'' = None"
    by simp
  from SendPrivateTransactionOptions_fast_required
         [of "JObj [(''fast'', JBool False)]" "[(''maxBlockNumber'', JStr ''0x10d4f'')]"] h n
  show ?thesis by simp
qed



section \<open>Contract refresh\<close>

text \<open>
  C6, as the claim states it, fails: the type gives \<open>progress\<close> the type
  \<^verbatim>\<open>string | null\<close> in every state. A result in state \<open>queued\<close> with progress \<^verbatim>\<open>"50"\<close>, a
  result in state \<open>in_progress\<close> with progress \<^verbatim>\<open>null\<close>, and a finished result whose
  progress is not a string of digits are values of \<open>RefreshContractResult\<close>.
\<close>

theorem RefreshContractResult_progress_counterexample:
  "has_type (JObj [(''contractAddress'', JStr ''0xbc4c''),
                   (''refreshState'', JStr ''queued''),
                   (''progress'', JStr ''50'')]) RefreshContractResult
   \<and> field (JObj [(''contractAddress'', JStr ''0xbc4c''),
                   (''refreshState'', JStr ''queued''),
                   (''progress'', JStr ''50'')]) ''progress'' \<noteq> JNull
   \<and> has_type (JObj [(''contractAddress'', JStr ''0xbc4c''),
                   (''refreshState'', JStr ''in_progress''),
                   (''progress'', JNull)]) RefreshContractResult
   \<and> field (JObj [(''contractAddress'', JStr ''0xbc4c''),
                   (''refreshState'', JStr ''in_progress''),
                   (''progress'', JNull)]) ''progress'' = JNull
   \<and> has_type (JObj [(''contractAddress'', JStr ''0xbc4c''),
                   (''refreshState'', JStr ''finished''),
                   (''progress'', JStr ''done'')]) RefreshContractResult"
  unfolding RefreshContractResult_def RefreshState_def
  by (simp add: has_type_TObject required_string required_enum required_string_or_null
        field_def is_string_def)

text \<open>
  C6, amended. The values of \<open>RefreshContractResult\<close> are exactly the objects whose
  \<open>contractAddress\<close> is a string, whose \<open>refreshState\<close> is one of the six states and
  whose \<open>progress\<close> is \<^verbatim>\<open>null\<close> or a string: the state belongs to the six-state set, and
  the type neither ties \<open>progress\<close> to the state nor restricts the string to digits.
\<close>

theorem RefreshContractResult_values:
  "has_type v RefreshContractResult =
     (is_object v
      \<and> is_string (field v ''contractAddress'')
      \<and> field v ''refreshState'' \<in> JStr ` {''does_not_exist'', ''already_queued'',
            ''in_progress'', ''finished'', ''queued'', ''queue_failed''}
      \<and> (field v ''progress'' = JNull \<or> is_string (field v ''progress'')))"
  unfolding RefreshContractResult_def RefreshState_def
  by (auto simp: has_type_TObject required_string required_enum required_string_or_null
        is_object_JObj)

theorem RefreshContractResult_values_witness:
  "has_type (JObj [(''contractAddress'', JStr ''0xbc4c''),
                   (''refreshState'', JStr ''in_progress''),
                   (''progress'', JStr ''42'')]) RefreshContractResult
   \<and> \<not> has_type (JObj [(''contractAddress'', JStr ''0xbc4c''),
                   (''refreshState'', JStr ''paused''),
                   (''progress'', JNull)]) RefreshContractResult
   \<and> \<not> has_type (JObj [(''contractAddress'', JStr ''0xbc4c''),
                   (''refreshState'', JStr ''finished''),
                   (''progress'', JNum 100)]) RefreshContractResult"
  using RefreshContractResult_values
          [of "JObj [(''contractAddress'', JStr ''0xbc4c''),
                     (''refreshState'', JStr ''in_progress''),
                     (''progress'', JStr ''42'')]"]
        RefreshContractResult_values
          [of "JObj [(''contractAddress'', JStr ''0xbc4c''),
                     (''refreshState'', JStr ''paused''),
                     (''progress'', JNull)]"]
        RefreshContractResult_values
          [of "JObj [(''contractAddress'', JStr ''0xbc4c''),
                     (''refreshState'', JStr ''finished''),
                     (''progress'', JNum 100)]"]
  by (simp add: field_def is_object_def is_string_def)



section \<open>Asset transfers\<close>

text \<open>
  C4, as the claim states it, fails: \<open>erc721TokenId\<close> and \<open>erc1155Metadata\<close> have the
  types \<^verbatim>\<open>string | null\<close> and \<^verbatim>\<open>ERC1155Metadata[] | null\<close> in every category. A transfer
  of category \<open>external\<close> that carries a token id and ERC1155 metadata, and a transfer
  of category \<open>erc721\<close> whose token id is \<^verbatim>\<open>null\<close>, are values of
  \<open>AssetTransfersResult\<close>.
\<close>

theorem AssetTransfersResult_category_counterexample:
  "has_type (JObj [(''category'', JStr ''external''),
                   (''blockNum'', JStr ''0x10d4f''),
                   (''from'', JStr ''0x1a''),
                   (''to'', JStr ''0x2b''),
                   (''value'', JNum 1),
                   (''erc721TokenId'', JStr ''0x07''),
                   (''erc1155Metadata'', JArr [JObj [(''tokenId'', JStr ''0x07''),
                                                    (''value'', JStr ''0x01'')]]),
                   (''tokenId'', JNull),
                   (''asset'', JStr ''ETH''),
                   (''hash'', JStr ''0x5f3a''),
                   (''rawContract'', JObj [(''value'', JStr ''0x0de0b6b3a7640000''),
                                          (''address'', JNull),
                                          (''decimal'', JStr ''0x12'')])])
     AssetTransfersResult
   \<and> has_type (JObj [(''category'', JStr ''erc721''),
                   (''blockNum'', JStr ''0x10d4f''),
                   (''from'', JStr ''0x1a''),
                   (''to'', JStr ''0x2b''),
                   (''value'', JNull),
                   (''erc721TokenId'', JNull),
                   (''erc1155Metadata'', JNull),
                   (''tokenId'', JNull),
                   (''asset'', JNull),
                   (''hash'', JStr ''0x5f3a''),
                   (''rawContract'', JObj [(''value'', JNull),
                                          (''address'', JStr ''0xbc4c''),
                                          (''decimal'', JNull)])])
     AssetTransfersResult"
  unfolding AssetTransfersResult_def AssetTransfersCategory_def ERC1155Metadata_def
    RawContract_def
  by (simp add: has_type_TObject member_ok_def)

lemma AssetTransfersResult_parts:
  assumes "has_type (JObj ps) AssetTransfersResult"
  shows "field (JObj ps) ''category'' \<in> JStr ` {''external'', ''internal'', ''erc20'',
            ''erc721'', ''erc1155'', ''specialnft''}"
    and "field (JObj ps) ''erc721TokenId'' = JNull
         \<or> (\<exists>s. field (JObj ps) ''erc721TokenId'' = JStr s)"
    and "field (JObj ps) ''erc1155Metadata'' = JNull
         \<or> (\<exists>xs. field (JObj ps) ''erc1155Metadata'' = JArr xs
                \<and> list_all (\<lambda>x. has_type x ERC1155Metadata) xs)"
    and "x = JNull \<or> (\<exists>s. x = JStr s) \<Longrightarrow>
         has_type (JObj ((''erc721TokenId'', x) # ps)) AssetTransfersResult
         \<and> field (JObj ((''erc721TokenId'', x) # ps)) ''category''
             = field (JObj ps) ''category''"
    and "y = JNull \<or> (\<exists>xs. y = JArr xs \<and> list_all (\<lambda>x. has_type x ERC1155Metadata) xs) \<Longrightarrow>
         has_type (JObj ((''erc1155Metadata'', y) # ps)) AssetTransfersResult
         \<and> field (JObj ((''erc1155Metadata'', y) # ps)) ''category''
             = field (JObj ps) ''category''"
proof -
  have u1: "\<not> has_type JUndefined (TUnion [TString, TNull])"
    by simp
  have u2: "\<not> has_type JUndefined (TUnion [TArray ERC1155Metadata, TNull])"
    by simp
  from assms have ms: "list_all (member_ok ps) (members AssetTransfersResult)"
    unfolding AssetTransfersResult_def by (simp add: has_type_TObject)
  from ms have "member_ok ps (''category'', Required, AssetTransfersCategory)"
    unfolding AssetTransfersResult_def by simp
  then show "field (JObj ps) ''category'' \<in> JStr ` {''external'', ''internal'', ''erc20'',
            ''erc721'', ''erc1155'', ''specialnft''}"
    unfolding AssetTransfersCategory_def by (simp add: required_enum)
  from ms have "member_ok ps (''erc721TokenId'', Required, TUnion [TString, TNull])"
    unfolding AssetTransfersResult_def by simp
  then show "field (JObj ps) ''erc721TokenId'' = JNull
         \<or> (\<exists>s. field (JObj ps) ''erc721TokenId'' = JStr s)"
    by (simp only: required_field [OF u1] has_type_string_or_null)
  from ms have "member_ok ps (''erc1155Metadata'', Required,
                   TUnion [TArray ERC1155Metadata, TNull])"
    unfolding AssetTransfersResult_def by simp
  then show "field (JObj ps) ''erc1155Metadata'' = JNull
         \<or> (\<exists>xs. field (JObj ps) ''erc1155Metadata'' = JArr xs
                \<and> list_all (\<lambda>x. has_type x ERC1155Metadata) xs)"
    by (simp only: required_field [OF u2] has_type_array_or_null)
  show "has_type (JObj ((''erc721TokenId'', x) # ps)) AssetTransfersResult
         \<and> field (JObj ((''erc721TokenId'', x) # ps)) ''category''
             = field (JObj ps) ''category''"
    if "x = JNull \<or> (\<exists>s. x = JStr s)"
  proof -
    from that have "has_type x (TUnion [TString, TNull])"
      by (simp only: has_type_string_or_null)
    then have "member_ok ((''erc721TokenId'', x) # ps)
                 (''erc721TokenId'', Required, TUnion [TString, TNull])"
      by (rule member_ok_set)
    with ms show ?thesis
      unfolding AssetTransfersResult_def
      by (simp add: has_type_TObject member_ok_other field_JObj del: has_type.simps)
  qed
  show "has_type (JObj ((''erc1155Metadata'', y) # ps)) AssetTransfersResult
         \<and> field (JObj ((''erc1155Metadata'', y) # ps)) ''category''
             = field (JObj ps) ''category''"
    if "y = JNull \<or> (\<exists>xs. y = JArr xs \<and> list_all (\<lambda>x. has_type x ERC1155Metadata) xs)"
  proof -
    from that have "has_type y (TUnion [TArray ERC1155Metadata, TNull])"
      by (simp only: has_type_array_or_null)
    then have "member_ok ((''erc1155Metadata'', y) # ps)
                 (''erc1155Metadata'', Required, TUnion [TArray ERC1155Metadata, TNull])"
      by (rule member_ok_set)
    with ms show ?thesis
      unfolding AssetTransfersResult_def
      by (simp add: has_type_TObject member_ok_other field_JObj del: has_type.simps)
  qed
qed

text \<open>
  C4, amended. In every value of type \<open>AssetTransfersResult\<close>, \<open>category\<close> is one of the
  six categories, \<open>erc721TokenId\<close> is \<^verbatim>\<open>null\<close> or a string and \<open>erc1155Metadata\<close> is
  \<^verbatim>\<open>null\<close> or a list of \<open>ERC1155Metadata\<close> objects. The type does not tie the two fields
  to the category: setting \<open>erc721TokenId\<close> to \<^verbatim>\<open>null\<close> or to any string, or
  \<open>erc1155Metadata\<close> to \<^verbatim>\<open>null\<close> or to any list of \<open>ERC1155Metadata\<close> objects, in a value
  of the type gives a value of the type, with the same category.
\<close>

theorem AssetTransfersResult_fields:
  assumes "has_type v AssetTransfersResult"
  shows "\<exists>ps. v = JObj ps
     \<and> field v ''category'' \<in> JStr ` {''external'', ''internal'', ''erc20'',
            ''erc721'', ''erc1155'', ''specialnft''}
     \<and> (field v ''erc721TokenId'' = JNull \<or> (\<exists>s. field v ''erc721TokenId'' = JStr s))
     \<and> (field v ''erc1155Metadata'' = JNull
         \<or> (\<exists>xs. field v ''erc1155Metadata'' = JArr xs
                \<and> list_all (\<lambda>x. has_type x ERC1155Metadata) xs))
     \<and> (\<forall>x. x = JNull \<or> (\<exists>s. x = JStr s) \<longrightarrow>
            has_type (JObj ((''erc721TokenId'', x) # ps)) AssetTransfersResult
            \<and> field (JObj ((''erc721TokenId'', x) # ps)) ''category'' = field v ''category'')
     \<and> (\<forall>y. y = JNull \<or> (\<exists>xs. y = JArr xs \<and> list_all (\<lambda>x. has_type x ERC1155Metadata) xs) \<longrightarrow>
            has_type (JObj ((''erc1155Metadata'', y) # ps)) AssetTransfersResult
            \<and> field (JObj ((''erc1155Metadata'', y) # ps)) ''category''
                = field v ''category'')"
proof -
  from assms obtain ps where v: "v = JObj ps"
    unfolding AssetTransfersResult_def by (auto simp: has_type_TObject)
  with assms have h: "has_type (JObj ps) AssetTransfersResult"
    by simp
  note p = AssetTransfersResult_parts [OF h]
  have d: "\<forall>x. x = JNull \<or> (\<exists>s. x = JStr s) \<longrightarrow>
            has_type (JObj ((''erc721TokenId'', x) # ps)) AssetTransfersResult
            \<and> field (JObj ((''erc721TokenId'', x) # ps)) ''category''
                = field (JObj ps) ''category''"
    by (intro allI impI) (rule p(4))
  have e: "\<forall>y. y = JNull \<or> (\<exists>xs. y = JArr xs \<and> list_all (\<lambda>x. has_type x ERC1155Metadata) xs) \<longrightarrow>
            has_type (JObj ((''erc1155Metadata'', y) # ps)) AssetTransfersResult
            \<and> field (JObj ((''erc1155Metadata'', y) # ps)) ''category''
                = field (JObj ps) ''category''"
    by (intro allI impI) (rule p(5))
  show ?thesis
    unfolding v by (intro exI [of _ ps] conjI refl p(1) p(2) p(3) d e)
qed

theorem AssetTransfersResult_fields_witness:
  "has_type (JObj [(''category'', JStr ''erc20''),
                   (''blockNum'', JStr ''0x10d4f''),
                   (''from'', JStr ''0x1a''),
                   (''to'', JStr ''0x2b''),
                   (''value'', JNum 25),
                   (''erc721TokenId'', JNull),
                   (''erc1155Metadata'', JNull),
                   (''tokenId'', JNull),
                   (''asset'', JStr ''USDC''),
                   (''hash'', JStr ''0x5f3a''),
                   (''rawContract'', JObj [(''value'', JStr ''0x17d7840''),
                                          (''address'', JStr ''0xa0b8''),
                                          (''decimal'', JStr ''0x6'')])])
     AssetTransfersResult
   \<and> has_type (JObj [(''erc721TokenId'', JStr ''0x09''),
                   (''category'', JStr ''erc20''),
                   (''blockNum'', JStr ''0x10d4f''),
                   (''from'', JStr ''0x1a''),
                   (''to'', JStr ''0x2b''),
                   (''value'', JNum 25),
                   (''erc721TokenId'', JNull),
                   (''erc1155Metadata'', JNull),
                   (''tokenId'', JNull),
                   (''asset'', JStr ''USDC''),
                   (''hash'', JStr ''0x5f3a''),
                   (''rawContract'', JObj [(''value'', JStr ''0x17d7840''),
                                          (''address'', JStr ''0xa0b8''),
                                          (''decimal'', JStr ''0x6'')])])
     AssetTransfersResult"
proof -
  let ?ps = "[(''category'', JStr ''erc20''),
              (''blockNum'', JStr ''0x10d4f''),
              (''from'', JStr ''0x1a''),
              (''to'', JStr ''0x2b''),
              (''value'', JNum 25),
              (''erc721TokenId'', JNull),
              (''erc1155Metadata'', JNull),
              (''tokenId'', JNull),
              (''asset'', JStr ''USDC''),
              (''hash'', JStr ''0x5f3a''),
              (''rawContract'', JObj [(''value'', JStr ''0x17d7840''),
                                     (''address'', JStr ''0xa0b8''),
                                     (''decimal'', JStr ''0x6'')])]"
  have h: "has_type (JObj ?ps) AssetTransfersResult"
    unfolding AssetTransfersResult_def AssetTransfersCategory_def ERC1155Metadata_def
      RawContract_def
    by (simp add: has_type_TObject member_ok_def)
  from AssetTransfersResult_fields [OF h] h show ?thesis
    by simp
qed


lemma AssetTransfersWithMetadataParams_iff:
  "has_type v AssetTransfersWithMetadataParams =
     (has_type v AssetTransfersParams \<and> field v ''withMetadata'' = JBool True)"
  unfolding AssetTransfersWithMetadataParams_def AssetTransfersParams_def
  by (auto simp: has_type_TObject required_literal intro: optional_boolean_of_field)

lemma AssetTransfersMetadata_defined: "\<not> has_type JUndefined AssetTransfersMetadata"
  by (simp add: AssetTransfersMetadata_def has_type_TObject)

lemma AssetTransfersWithMetadataResult_iff:
  "has_type v AssetTransfersWithMetadataResult =
     (has_type v AssetTransfersResult
      \<and> has_type (field v ''metadata'') AssetTransfersMetadata)"
  unfolding AssetTransfersWithMetadataResult_def AssetTransfersResult_def
  by (auto simp: has_type_TObject required_field [OF AssetTransfersMetadata_defined])

text \<open>
  C5. \<open>AssetTransfersWithMetadataParams\<close> declares \<open>withMetadata\<close> as the required literal
  \<^verbatim>\<open>true\<close>, and its values are exactly the values of \<open>AssetTransfersParams\<close> whose
  \<open>withMetadata\<close> is \<^verbatim>\<open>true\<close>. \<open>AssetTransfersWithMetadataResult\<close> declares \<open>metadata\<close> as a
  required member of type \<open>AssetTransfersMetadata\<close>, and its values are exactly the values
  of \<open>AssetTransfersResult\<close> that carry such a \<open>metadata\<close>; an object without it is not
  one.
\<close>

theorem AssetTransfersWithMetadata_types:
  "map_of (members AssetTransfersWithMetadataParams) ''withMetadata''
     = Some (Required, TLitBool True)
   \<and> has_type v AssetTransfersWithMetadataParams
       = (has_type v AssetTransfersParams \<and> field v ''withMetadata'' = JBool True)
   \<and> map_of (members AssetTransfersWithMetadataResult) ''metadata''
       = Some (Required, AssetTransfersMetadata)
   \<and> has_type w AssetTransfersWithMetadataResult
       = (has_type w AssetTransfersResult
          \<and> has_type (field w ''metadata'') AssetTransfersMetadata)
   \<and> \<not> has_type JUndefined AssetTransfersMetadata"
proof (intro conjI)
  show "map_of (members AssetTransfersWithMetadataParams) ''withMetadata''
          = Some (Required, TLitBool True)"
    by (simp add: AssetTransfersWithMetadataParams_def AssetTransfersParams_def)
  show "has_type v AssetTransfersWithMetadataParams
          = (has_type v AssetTransfersParams \<and> field v ''withMetadata'' = JBool True)"
    by (rule AssetTransfersWithMetadataParams_iff)
  show "map_of (members AssetTransfersWithMetadataResult) ''metadata''
          = Some (Required, AssetTransfersMetadata)"
    by (simp add: AssetTransfersWithMetadataResult_def AssetTransfersResult_def)
  show "has_type w AssetTransfersWithMetadataResult
          = (has_type w AssetTransfersResult
             \<and> has_type (field w ''metadata'') AssetTransfersMetadata)"
    by (rule AssetTransfersWithMetadataResult_iff)
  show "\<not> has_type JUndefined AssetTransfersMetadata"
    by (rule AssetTransfersMetadata_defined)
qed

theorem AssetTransfersWithMetadata_types_witness:
  "has_type (JObj [(''category'', JArr [JStr ''erc20'', JStr ''external'']),
                   (''fromBlock'', JStr ''0x0''),
                   (''withMetadata'', JBool True)]) AssetTransfersWithMetadataParams
   \<and> has_type (JObj [(''category'', JArr [JStr ''erc20'', JStr ''external'']),
                   (''fromBlock'', JStr ''0x0'')]) AssetTransfersParams
   \<and> \<not> has_type (JObj [(''category'', JArr [JStr ''erc20'', JStr ''external'']),
                   (''fromBlock'', JStr ''0x0'')]) AssetTransfersWithMetadataParams
   \<and> \<not> has_type (JObj [(''category'', JStr ''erc20''),
                   (''blockNum'', JStr ''0x10d4f''),
                   (''from'', JStr ''0x1a''),
                   (''to'', JStr ''0x2b''),
                   (''value'', JNum 25),
                   (''erc721TokenId'', JNull),
                   (''erc1155Metadata'', JNull),
                   (''tokenId'', JNull),
                   (''asset'', JStr ''USDC''),
                   (''hash'', JStr ''0x5f3a''),
                   (''rawContract'', JObj [(''value'', JStr ''0x17d7840''),
                                          (''address'', JStr ''0xa0b8''),
                                          (''decimal'', JStr ''0x6'')])])
       AssetTransfersWithMetadataResult"
proof -
  let ?c = "(''category'', JArr [JStr ''erc20'', JStr ''external''])"
  let ?f = "(''fromBlock'', JStr ''0x0'')"
  let ?r = "JObj [(''category'', JStr ''erc20''),
                   (''blockNum'', JStr ''0x10d4f''),
                   (''from'', JStr ''0x1a''),
                   (''to'', JStr ''0x2b''),
                   (''value'', JNum 25),
                   (''erc721TokenId'', JNull),
                   (''erc1155Metadata'', JNull),
                   (''tokenId'', JNull),
                   (''asset'', JStr ''USDC''),
                   (''hash'', JStr ''0x5f3a''),
                   (''rawContract'', JObj [(''value'', JStr ''0x17d7840''),
                                          (''address'', JStr ''0xa0b8''),
                                          (''decimal'', JStr ''0x6'')])]"
  have p: "has_type (JObj [?c, ?f, (''withMetadata'', JBool True)]) AssetTransfersParams"
    unfolding AssetTransfersParams_def AssetTransfersCategory_def AssetTransfersOrder_def
    by (simp add: has_type_TObject member_ok_def)
  have q: "has_type (JObj [?c, ?f]) AssetTransfersParams"
    unfolding AssetTransfersParams_def AssetTransfersCategory_def AssetTransfersOrder_def
    by (simp add: has_type_TObject member_ok_def)
  have f1: "field (JObj [?c, ?f, (''withMetadata'', JBool True)]) ''withMetadata'' = JBool True"
    by (simp add: field_def)
  have f2: "field (JObj [?c, ?f]) ''withMetadata'' \<noteq> JBool True"
    by (simp add: field_def)
  have f3: "field ?r ''metadata'' = JUndefined"
    by (simp add: field_def)
  note t = AssetTransfersWithMetadata_types
  have a: "has_type (JObj [?c, ?f, (''withMetadata'', JBool True)])
             AssetTransfersWithMetadataParams"
    using t [of "JObj [?c, ?f, (''withMetadata'', JBool True)]"] p f1 by (simp only: simp_thms)
  have b: "\<not> has_type (JObj [?c, ?f]) AssetTransfersWithMetadataParams"
    using t [of "JObj [?c, ?f]"] f2 by (simp only: simp_thms)
  have c: "\<not> has_type ?r AssetTransfersWithMetadataResult"
    using t [of _ ?r] f3 by (simp only: simp_thms)
  show ?thesis
    by (intro conjI a q b c)
qed


section \<open>NFT metadata\<close>

text \<open>
  C10. \<open>NftMetadata\<close> declares the six members \<open>name\<close>, \<open>description\<close>, \<open>image\<close>,
  \<open>external_url\<close>, \<open>background_color\<close> and \<open>attributes\<close>, all optional, and inherits the
  index signature of \<^verbatim>\<open>Record<string, any>\<close>. The empty object is a value of the type, and
  so is every object none of whose properties is one of the six members, whatever its
  properties are.
\<close>

theorem NftMetadata_all_optional:
  "index_signature NftMetadata = Some TAny
   \<and> map fst (members NftMetadata)
       = [''name'', ''description'', ''image'', ''external_url'', ''background_color'',
          ''attributes'']
   \<and> list_all (\<lambda>m. fst (snd m) = Optional) (members NftMetadata)
   \<and> has_type (JObj []) NftMetadata
   \<and> (set (map fst ps) \<inter> set (map fst (members NftMetadata)) = {}
        \<longrightarrow> has_type (JObj ps) NftMetadata)"
  unfolding NftMetadata_def Record_string_def
  by (simp add: has_type_TObject member_ok_absent list_all_iff)

theorem NftMetadata_all_optional_witness:
  "set (map fst [(''tokenId'', JNum 7), (''rarity'', JObj [(''rank'', JNum 3)])])
     \<inter> set (map fst (members NftMetadata)) = {}
   \<and> has_type (JObj [(''tokenId'', JNum 7), (''rarity'', JObj [(''rank'', JNum 3)])])
       NftMetadata
   \<and> has_type (JObj []) NftMetadata"
proof -
  have d: "set (map fst [(''tokenId'', JNum 7), (''rarity'', JObj [(''rank'', JNum 3)])])
             \<inter> set (map fst (members NftMetadata)) = {}"
    unfolding NftMetadata_def Record_string_def by simp
  note r = NftMetadata_all_optional
             [of "[(''tokenId'', JNum 7), (''rarity'', JObj [(''rank'', JNum 3)])]",
              THEN conjunct2, THEN conjunct2, THEN conjunct2]
  show ?thesis
    by (intro conjI d r [THEN conjunct1] r [THEN conjunct2, THEN mp, OF d])
qed


section \<open>Options of the NFT queries\<close>

text \<open>
  C2. The two full-metadata options types declare \<open>omitMetadata\<close> as an optional
  boolean, and \<open>GetBaseNftsForOwnerOptions\<close> declares it as the required literal \<^verbatim>\<open>true\<close>.
  \<open>GetBaseNftsForContractOptions\<close>, documented as the interface "used to fetch NFTs
  without their associated metadata", declares it as the required literal \<^verbatim>\<open>false\<close>: the
  options \<^verbatim>\<open>{omitMetadata: true}\<close> are not a value of it, and \<^verbatim>\<open>{omitMetadata: false}\<close>, which
  asks for the metadata, are.
\<close>

theorem GetBaseNftsForContractOptions_omitMetadata:
  "map_of (members GetNftsForOwnerOptions) ''omitMetadata'' = Some (Optional, TBoolean)
   \<and> map_of (members GetNftsForContractOptions) ''omitMetadata'' = Some (Optional, TBoolean)
   \<and> map_of (members GetBaseNftsForOwnerOptions) ''omitMetadata''
       = Some (Required, TLitBool True)
   \<and> map_of (members GetBaseNftsForContractOptions) ''omitMetadata''
       = Some (Required, TLitBool False)
   \<and> has_type (JObj [(''omitMetadata'', JBool True)]) GetBaseNftsForOwnerOptions
   \<and> \<not> has_type (JObj [(''omitMetadata'', JBool True)]) GetBaseNftsForContractOptions
   \<and> has_type (JObj [(''omitMetadata'', JBool False)]) GetBaseNftsForContractOptions
   \<and> has_type (JObj [(''omitMetadata'', JBool False)]) GetNftsForContractOptions"
  unfolding GetNftsForOwnerOptions_def GetNftsForContractOptions_def
    GetBaseNftsForOwnerOptions_def GetBaseNftsForContractOptions_def
  by (simp add: has_type_TObject member_ok_def)

end
